theory Spec2Isabelle
  imports Complex_Main "HOL-Library.Word" "HOL-Library.Multiset"
begin

section \<open>API responsiveness measurement (clusterloader2, package slos)\<close>

text \<open>
  A shallow embedding of \<^verbatim>\<open>api_responsiveness_prometheus.go\<close>: the keyed
  aggregate of API call metrics, its construction from Prometheus samples, the SLO
  threshold selection, the validation of one metric and the ordering of the report.
\<close>

subsection \<open>Durations\<close>

text \<open>
  Go's \<^verbatim>\<open>time.Duration\<close> is an \<^verbatim>\<open>int64\<close> count of nanoseconds: arithmetic
  wraps around, comparisons are signed.
\<close>

type_synonym duration = "64 word"

definition Second :: duration where
  "Second = 1000000000"

definition Minute :: duration where
  "Minute = 60 * Second"

definition resourceThreshold :: duration where
  "resourceThreshold = 1 * Second"

definition namespaceThreshold :: duration where
  "namespaceThreshold = 5 * Second"

definition clusterThreshold :: duration where
  "clusterThreshold = 30 * Second"

definition latencyWindowSize :: duration where
  "latencyWindowSize = 5 * Minute"

definition topToPrint :: int where
  "topToPrint = 5"

subsection \<open>Latency metric\<close>

text \<open>
  Modelled from the spec: \<^verbatim>\<open>measurementutil.LatencyMetric\<close> with its methods
  \<^verbatim>\<open>SetQuantile\<close> and \<^verbatim>\<open>VerifyThreshold\<close> lives in another package of the
  repository. The spec describes it as a distribution that "holds three percentile
  values (50th, 90th, 99th), each independently settable".
\<close>

record LatencyMetric =
  Perc50 :: duration
  Perc90 :: duration
  Perc99 :: duration

text \<open>
  Modelled from the spec: \<^verbatim>\<open>LatencyMetric.SetQuantile\<close>. "Latency sample: parse its
  quantile tag to a number; set the corresponding percentile on that key's
  distribution"; the three percentiles are the 50th, 90th and 99th. The quantile is a
  \<^verbatim>\<open>float64\<close> in the source and the rational it denotes here.
\<close>

definition SetQuantile :: "LatencyMetric \<Rightarrow> rat \<Rightarrow> duration \<Rightarrow> LatencyMetric" where
  "SetQuantile metric quantile latency =
     (if quantile = 1 / 2 then metric\<lparr>Perc50 := latency\<rparr>
      else if quantile = 9 / 10 then metric\<lparr>Perc90 := latency\<rparr>
      else if quantile = 99 / 100 then metric\<lparr>Perc99 := latency\<rparr>
      else metric)"

subsection \<open>API call metric and errors\<close>

record apiCallMetric =
  Resource :: string
  Subresource :: string
  Verb :: string
  Scope :: string
  Latency :: LatencyMetric
  Count :: int
  SlowCount :: int

datatype error =
    ParseFloatError string
  | QueryError string
  | ConfigError string
  | ThresholdExceeded duration duration
  | LatencyViolation apiCallMetric duration

text \<open>
  Modelled from the spec: \<^verbatim>\<open>LatencyMetric.VerifyThreshold\<close>. "A record fails when its
  99th-percentile latency exceeds its selected objective." \<^verbatim>\<open>None\<close> is Go's
  \<^verbatim>\<open>nil\<close> error.
\<close>

definition VerifyThreshold :: "LatencyMetric \<Rightarrow> duration \<Rightarrow> error option" where
  "VerifyThreshold metric threshold =
     (if threshold <s Perc99 metric then Some (ThresholdExceeded (Perc99 metric) threshold)
      else None)"

subsection \<open>Threshold selection and validation of one metric\<close>

definition getSLOThreshold :: "apiCallMetric \<Rightarrow> duration" where
  "getSLOThreshold ap =
     (if Verb ap \<noteq> ''LIST'' then resourceThreshold
      else if Scope ap = ''cluster'' then clusterThreshold
      else namespaceThreshold)"

definition Validate :: "apiCallMetric \<Rightarrow> int \<Rightarrow> error option" where
  "Validate ap allowedSlowCalls =
     (let threshold = getSLOThreshold ap in
      case VerifyThreshold (Latency ap) threshold of
        Some err \<Rightarrow>
          if allowedSlowCalls > 0 \<and> SlowCount ap \<le> allowedSlowCalls then None
          else Some (LatencyViolation ap threshold)
      | None \<Rightarrow> None)"

subsection \<open>Samples\<close>

text \<open>
  A Prometheus \<^verbatim>\<open>model.Sample\<close>: the label map \<^verbatim>\<open>Metric\<close> and the scalar
  \<^verbatim>\<open>Value\<close>. Reading a label that is absent from a Go map gives the empty string.
  The \<^verbatim>\<open>float64\<close> value is the rational it denotes; not-a-number and the infinities
  have no counterpart here.
\<close>

record sample =
  Metric :: "string \<rightharpoonup> string"
  Value :: rat

definition label :: "sample \<Rightarrow> string \<Rightarrow> string" where
  "label s name = (case Metric s name of None \<Rightarrow> [] | Some v \<Rightarrow> v)"

definition extractCommon :: "sample \<Rightarrow> string \<times> string \<times> string \<times> string" where
  "extractCommon s =
     (label s ''resource'', label s ''subresource'', label s ''verb'', label s ''scope'')"

text \<open>Go's conversion of a float to an integer drops the fraction (towards zero).\<close>

definition intOfFloat :: "rat \<Rightarrow> int" where
  "intOfFloat x = (if x < 0 then - \<lfloor>- x\<rfloor> else \<lfloor>x\<rfloor>)"

text \<open>\<^verbatim>\<open>math.Round\<close>: the nearest integer, halves away from zero.\<close>

definition Round :: "rat \<Rightarrow> rat" where
  "Round x = (if x < 0 then - of_int \<lfloor>- x + 1 / 2\<rfloor> else of_int \<lfloor>x + 1 / 2\<rfloor>)"

text \<open>\<^verbatim>\<open>time.Duration(float64(sample.Value) * float64(time.Second))\<close>\<close>

definition sampleLatency :: "sample \<Rightarrow> duration" where
  "sampleLatency s = word_of_int (intOfFloat (Value s * of_int (sint Second)))"

text \<open>\<^verbatim>\<open>int(math.Round(float64(sample.Value)))\<close>\<close>

definition sampleCount :: "sample \<Rightarrow> int" where
  "sampleCount s = intOfFloat (Round (Value s))"

subsection \<open>The keyed aggregate\<close>

text \<open>
  \<^verbatim>\<open>apiCallMetrics\<close> wraps one field, the map from key to a pointer to the metric.
  Every pointer is stored under exactly one key and is only written through the
  \<^verbatim>\<open>Set...\<close> methods, so the map from key to metric value carries the whole state.
\<close>

type_synonym apiCallMetrics = "string \<rightharpoonup> apiCallMetric"

definition buildKey :: "string \<Rightarrow> string \<Rightarrow> string \<Rightarrow> string \<Rightarrow> string" where
  "buildKey resource subresource verb scope =
     resource @ ''|'' @ subresource @ ''|'' @ verb @ ''|'' @ scope"

definition zeroLatency :: LatencyMetric where
  "zeroLatency = \<lparr>Perc50 = 0, Perc90 = 0, Perc99 = 0\<rparr>"

text \<open>The call found or created under the key, and the map that holds it.\<close>

definition getAPICall ::
  "apiCallMetrics \<Rightarrow> string \<Rightarrow> string \<Rightarrow> string \<Rightarrow> string \<Rightarrow> apiCallMetric \<times> apiCallMetrics" where
  "getAPICall m resource subresource verb scope =
     (let key = buildKey resource subresource verb scope in
      case m key of
        None \<Rightarrow>
          (let call = \<lparr>Resource = resource, Subresource = subresource, Verb = verb,
                       Scope = scope, Latency = zeroLatency, Count = 0, SlowCount = 0\<rparr>
           in (call, m(key \<mapsto> call)))
      | Some call \<Rightarrow> (call, m))"

definition SetLatency ::
  "apiCallMetrics \<Rightarrow> string \<Rightarrow> string \<Rightarrow> string \<Rightarrow> string \<Rightarrow> rat \<Rightarrow> duration \<Rightarrow> apiCallMetrics" where
  "SetLatency m resource subresource verb scope quantile latency =
     (let (call, m') = getAPICall m resource subresource verb scope in
      m'(buildKey resource subresource verb scope \<mapsto>
           call\<lparr>Latency := SetQuantile (Latency call) quantile latency\<rparr>))"

definition SetCount ::
  "apiCallMetrics \<Rightarrow> string \<Rightarrow> string \<Rightarrow> string \<Rightarrow> string \<Rightarrow> int \<Rightarrow> apiCallMetrics" where
  "SetCount m resource subresource verb scope cnt =
     (if cnt = 0 then m
      else let (call, m') = getAPICall m resource subresource verb scope in
        m'(buildKey resource subresource verb scope \<mapsto> call\<lparr>Count := cnt\<rparr>))"

definition SetSlowCount ::
  "apiCallMetrics \<Rightarrow> string \<Rightarrow> string \<Rightarrow> string \<Rightarrow> string \<Rightarrow> int \<Rightarrow> apiCallMetrics" where
  "SetSlowCount m resource subresource verb scope cnt =
     (if cnt = 0 then m
      else let (call, m') = getAPICall m resource subresource verb scope in
        m'(buildKey resource subresource verb scope \<mapsto> call\<lparr>SlowCount := cnt\<rparr>))"

subsection \<open>Building the aggregate from samples\<close>

text \<open>
  The three loops of \<^verbatim>\<open>newFromSamples\<close>, one per sample set. \<^verbatim>\<open>strconv.ParseFloat\<close>
  belongs to Go's library: it is the parameter \<open>parseFloat\<close>, \<^verbatim>\<open>None\<close> when it
  returns an error.
\<close>

fun latencyLoop ::
  "(string \<Rightarrow> rat option) \<Rightarrow> sample list \<Rightarrow> apiCallMetrics \<Rightarrow> error + apiCallMetrics" where
  "latencyLoop parseFloat [] m = Inr m"
| "latencyLoop parseFloat (s # ss) m =
     (case extractCommon s of (resource, subresource, verb, scope) \<Rightarrow>
        (case parseFloat (label s ''quantile'') of
           None \<Rightarrow> Inl (ParseFloatError (label s ''quantile''))
         | Some quantile \<Rightarrow>
             latencyLoop parseFloat ss
               (SetLatency m resource subresource verb scope quantile (sampleLatency s))))"

fun countLoop :: "sample list \<Rightarrow> apiCallMetrics \<Rightarrow> apiCallMetrics" where
  "countLoop [] m = m"
| "countLoop (s # ss) m =
     (case extractCommon s of (resource, subresource, verb, scope) \<Rightarrow>
        countLoop ss (SetCount m resource subresource verb scope (sampleCount s)))"

fun countSlowLoop :: "sample list \<Rightarrow> apiCallMetrics \<Rightarrow> apiCallMetrics" where
  "countSlowLoop [] m = m"
| "countSlowLoop (s # ss) m =
     (case extractCommon s of (resource, subresource, verb, scope) \<Rightarrow>
        countSlowLoop ss (SetSlowCount m resource subresource verb scope (sampleCount s)))"

definition newFromSamples ::
  "(string \<Rightarrow> rat option) \<Rightarrow> sample list \<Rightarrow> sample list \<Rightarrow> sample list
     \<Rightarrow> error + apiCallMetrics" where
  "newFromSamples parseFloat latencySamples countSamples countSlowSamples =
     (case latencyLoop parseFloat latencySamples Map.empty of
        Inl err \<Rightarrow> Inl err
      | Inr m \<Rightarrow> Inr (countSlowLoop countSlowSamples (countLoop countSamples m)))"

subsection \<open>Ordering and rendering the report\<close>

text \<open>
  \<^verbatim>\<open>sort.Slice\<close> belongs to Go's library. It promises a permutation of the slice in
  which no later element is \<open>lessFn\<close> than an earlier one, and no more (it is not
  stable). The model is insertion sort driven by \<open>lessFn\<close>; the theorems below rely on
  the promise only.
\<close>

fun insert_by :: "('a \<Rightarrow> 'a \<Rightarrow> bool) \<Rightarrow> 'a \<Rightarrow> 'a list \<Rightarrow> 'a list" where
  "insert_by lessFn x [] = [x]"
| "insert_by lessFn x (y # ys) =
     (if lessFn y x then y # insert_by lessFn x ys else x # y # ys)"

definition sort_Slice :: "('a \<Rightarrow> 'a \<Rightarrow> bool) \<Rightarrow> 'a list \<Rightarrow> 'a list" where
  "sort_Slice lessFn xs = foldr (insert_by lessFn) xs []"

text \<open>
  \<^verbatim>\<open>sorted\<close>. Go ranges over a map in an order of its own choosing: \<open>keys\<close> is that
  order, a list of the keys of the map.
\<close>

definition sorted_metrics :: "string list \<Rightarrow> apiCallMetrics \<Rightarrow> apiCallMetric list" where
  "sorted_metrics keys m =
     sort_Slice (\<lambda>a b. Perc99 (Latency b) <s Perc99 (Latency a)) (List.map_filter m keys)"

record DataItem =
  Data :: "string \<rightharpoonup> rat"
  Unit :: string
  Labels :: "string \<rightharpoonup> string"

record PerfData =
  Version :: string
  DataItems :: "DataItem list"

definition currentAPICallMetricsVersion :: string where
  "currentAPICallMetricsVersion = ''v1''"

text \<open>\<^verbatim>\<open>fmt.Sprintf("%v", n)\<close> for an \<^verbatim>\<open>int\<close>: its decimal digits.\<close>

fun showNat :: "nat \<Rightarrow> string" where
  "showNat n =
     (if n < 10 then [''0123456789'' ! n]
      else showNat (n div 10) @ [''0123456789'' ! (n mod 10)])"

definition showInt :: "int \<Rightarrow> string" where
  "showInt i = (if i < 0 then CHR ''-'' # showNat (nat (- i)) else showNat (nat i))"

text \<open>\<^verbatim>\<open>float64(d) / 1000000\<close> for a duration \<open>d\<close>.\<close>

definition toMillis :: "duration \<Rightarrow> rat" where
  "toMillis d = of_int (sint d) / 1000000"

definition toDataItem :: "apiCallMetric \<Rightarrow> DataItem" where
  "toDataItem apicall =
     \<lparr>Data = [''Perc50'' \<mapsto> toMillis (Perc50 (Latency apicall)),
              ''Perc90'' \<mapsto> toMillis (Perc90 (Latency apicall)),
              ''Perc99'' \<mapsto> toMillis (Perc99 (Latency apicall))],
      Unit = ''ms'',
      Labels = [''Verb'' \<mapsto> Verb apicall,
                ''Resource'' \<mapsto> Resource apicall,
                ''Subresource'' \<mapsto> Subresource apicall,
                ''Scope'' \<mapsto> Scope apicall,
                ''Count'' \<mapsto> showInt (Count apicall),
                ''SlowCount'' \<mapsto> showInt (SlowCount apicall)]\<rparr>"

definition ToPerfData :: "string list \<Rightarrow> apiCallMetrics \<Rightarrow> PerfData" where
  "ToPerfData keys m =
     \<lparr>Version = currentAPICallMetricsVersion,
      DataItems = map toDataItem (sorted_metrics keys m)\<rparr>"

subsection \<open>Validating all metrics\<close>

text \<open>
  The loop of \<^verbatim>\<open>validateAPICalls\<close>: the errors collected, and the metrics logged, each
  with the flag of its \<^verbatim>\<open>WARNING\<close> prefix.
\<close>

fun validateLoop ::
  "int \<Rightarrow> int \<Rightarrow> apiCallMetric list \<Rightarrow> error list \<times> (bool \<times> apiCallMetric) list" where
  "validateLoop allowedSlowCalls topN [] = ([], [])"
| "validateLoop allowedSlowCalls topN (apiCall # rest) =
     (let err = Validate apiCall allowedSlowCalls;
          printed = (topN > 0 \<or> err \<noteq> None)
      in case validateLoop allowedSlowCalls (if printed then topN - 1 else topN) rest of
           (badMetrics, logged) \<Rightarrow>
             ((case err of Some e \<Rightarrow> [e] | None \<Rightarrow> []) @ badMetrics,
              (if printed then [(err \<noteq> None, apiCall)] else []) @ logged))"

definition validateAPICalls ::
  "string list \<Rightarrow> int \<Rightarrow> apiCallMetrics \<Rightarrow> error list \<times> (bool \<times> apiCallMetric) list" where
  "validateAPICalls keys allowedSlowCalls metrics =
     validateLoop allowedSlowCalls topToPrint (sorted_metrics keys metrics)"

subsection \<open>Queries\<close>

definition dquote :: string where
  "dquote = [CHR 0x22]"

definition backslash :: string where
  "backslash = [CHR 0x5C]"

definition filters :: string where
  "filters = ''resource!='' @ dquote @ ''events'' @ dquote @ '', verb!~'' @ dquote
     @ ''WATCH|WATCHLIST|PROXY|CONNECT'' @ dquote"

definition filterGetAndMutating :: string where
  "filterGetAndMutating = ''verb!~'' @ dquote @ ''WATCH|WATCHLIST|PROXY|CONNECT'' @ dquote
     @ '', le!~'' @ dquote @ ''0.'' @ backslash @ backslash @ ''d+|1'' @ dquote"

definition filterNamespaceList :: string where
  "filterNamespaceList = ''scope!='' @ dquote @ ''cluster'' @ dquote @ '', verb='' @ dquote
     @ ''LIST'' @ dquote @ '', le!~'' @ dquote @ ''[01234](.'' @ backslash @ backslash
     @ ''d+)?|5'' @ dquote"

definition filterClusterList :: string where
  "filterClusterList = ''scope='' @ dquote @ ''cluster'' @ dquote @ '', verb='' @ dquote
     @ ''LIST'' @ dquote @ '', le!~'' @ dquote @ ''[12]?[0-9](.'' @ backslash @ backslash
     @ ''d+)?|30'' @ dquote"

text \<open>
  The query templates, each applied to what \<^verbatim>\<open>fmt.Sprintf\<close> puts in its
  placeholders.
\<close>

definition latencyQuery :: "string \<Rightarrow> string \<Rightarrow> string" where
  "latencyQuery flt window =
     ''quantile_over_time(0.99, apiserver:apiserver_request_latency_1m:histogram_quantile{''
     @ flt @ ''}['' @ window @ ''])''"

definition simpleLatencyQuery :: "string \<Rightarrow> string \<Rightarrow> string \<Rightarrow> string" where
  "simpleLatencyQuery q flt window =
     ''histogram_quantile('' @ q
     @ '', sum(rate(apiserver_request_duration_seconds_bucket{'' @ flt @ ''}['' @ window
     @ ''])) by (resource,  subresource, verb, scope, le))''"

definition countQuery :: "string \<Rightarrow> string \<Rightarrow> string" where
  "countQuery flt window =
     ''sum(increase(apiserver_request_duration_seconds_count{'' @ flt @ ''}['' @ window
     @ ''])) by (resource, subresource, scope, verb)''"

definition countSlowQuery :: "string \<Rightarrow> string \<Rightarrow> string" where
  "countSlowQuery flt window =
     ''sum(rate(apiserver_request_duration_seconds_bucket{'' @ flt @ ''}['' @ window
     @ ''])) by (resource, subresource, scope, verb)''"

text \<open>
  The quantiles of the simple latency query. Each of \<^verbatim>\<open>0.5\<close>, \<^verbatim>\<open>0.9\<close> and
  \<^verbatim>\<open>0.99\<close> is used only as \<^verbatim>\<open>fmt.Sprintf("%.2f", q)\<close>, in the query and in the
  label: the list holds these renderings.
\<close>

definition quantiles :: "string list" where
  "quantiles = [''0.50'', ''0.90'', ''0.99'']"

subsection \<open>Configuration\<close>

text \<open>
  Modelled from the spec: the parameters of a measurement and the getters
  \<^verbatim>\<open>util.GetBoolOrDefault\<close> and \<^verbatim>\<open>util.GetIntOrDefault\<close>, which live in another
  package of the repository. The spec lists
  "useSimpleLatencyQuery: bool, default false" and "allowedSlowCalls: integer, default 0",
  and the error of "a configuration option [that] has an invalid type".
\<close>

datatype param = BoolParam bool | IntParam int | StringParam string

text \<open>
  Modelled from the spec: \<^verbatim>\<open>util.GetBoolOrDefault\<close>: the default for a missing option,
  the value of a boolean option, and a configuration error for a value of another type.
\<close>

definition GetBoolOrDefault :: "(string \<rightharpoonup> param) \<Rightarrow> string \<Rightarrow> bool \<Rightarrow> error + bool" where
  "GetBoolOrDefault params key defaultValue =
     (case params key of
        None \<Rightarrow> Inr defaultValue
      | Some (BoolParam b) \<Rightarrow> Inr b
      | Some _ \<Rightarrow> Inl (ConfigError key))"

text \<open>
  Modelled from the spec: \<^verbatim>\<open>util.GetIntOrDefault\<close>, absent like the getter above:
  the default for a missing option, the value of an integer option, and a
  configuration error for a value of another type.
\<close>

definition GetIntOrDefault :: "(string \<rightharpoonup> param) \<Rightarrow> string \<Rightarrow> int \<Rightarrow> error + int" where
  "GetIntOrDefault params key defaultValue =
     (case params key of
        None \<Rightarrow> Inr defaultValue
      | Some (IntParam i) \<Rightarrow> Inr i
      | Some _ \<Rightarrow> Inl (ConfigError key))"

subsection \<open>Gathering\<close>

text \<open>
  The window of the latency query when \<^verbatim>\<open>useSimpleLatencyQuery\<close> is off: the
  measurement's duration less \<^verbatim>\<open>latencyWindowSize\<close>, and a minute when that is less
  than a minute. The subtraction is Go's, on \<^verbatim>\<open>int64\<close>.
\<close>

definition latencyMeasurementDuration :: "duration \<Rightarrow> duration" where
  "latencyMeasurementDuration measurementDuration =
     (let d = measurementDuration - latencyWindowSize in
      if d <s Minute then Minute else d)"

text \<open>
  The executor answers a query with samples or an error; every query of one pass is
  evaluated at the same instant \<^verbatim>\<open>measurementEnd\<close>, so the executor is a function of
  the query's text. Each function below returns, first, the texts it passed to
  \<^verbatim>\<open>executor.Query\<close>, in order.
\<close>

type_synonym executor = "string \<Rightarrow> error + sample list"

fun simpleLatencyLoop ::
  "executor \<Rightarrow> string \<Rightarrow> string list \<Rightarrow> string list \<times> (error + sample list)" where
  "simpleLatencyLoop exec promDuration [] = ([], Inr [])"
| "simpleLatencyLoop exec promDuration (q # qs) =
     (let query = simpleLatencyQuery q filters promDuration in
      case exec query of
        Inl err \<Rightarrow> ([query], Inl err)
      | Inr samples \<Rightarrow>
          (let tagged = map (\<lambda>s. s\<lparr>Metric := (Metric s)(''quantile'' \<mapsto> q)\<rparr>) samples in
           case simpleLatencyLoop exec promDuration qs of
             (issued, Inl err) \<Rightarrow> (query # issued, Inl err)
           | (issued, Inr others) \<Rightarrow> (query # issued, Inr (tagged @ others))))"

fun countSlowQueryLoop ::
  "executor \<Rightarrow> string \<Rightarrow> string list \<Rightarrow> string list \<times> (error + sample list)" where
  "countSlowQueryLoop exec promDuration [] = ([], Inr [])"
| "countSlowQueryLoop exec promDuration (flt # flts) =
     (let query = countSlowQuery flt promDuration in
      case exec query of
        Inl err \<Rightarrow> ([query], Inl err)
      | Inr samples \<Rightarrow>
          (case countSlowQueryLoop exec promDuration flts of
             (issued, Inl err) \<Rightarrow> (query # issued, Inl err)
           | (issued, Inr others) \<Rightarrow> (query # issued, Inr (samples @ others))))"

text \<open>
  \<^verbatim>\<open>gatherAPICalls\<close>. \<^verbatim>\<open>measurementutil.ToPrometheusTime\<close> lives in another package
  and is the parameter \<open>toPrometheusTime\<close>; \<open>measurementDuration\<close> is
  \<^verbatim>\<open>measurementEnd.Sub(startTime)\<close>.
\<close>

definition gatherAPICalls ::
  "(string \<Rightarrow> rat option) \<Rightarrow> (duration \<Rightarrow> string) \<Rightarrow> executor \<Rightarrow> duration
     \<Rightarrow> (string \<rightharpoonup> param) \<Rightarrow> string list \<times> (error + apiCallMetrics)" where
  "gatherAPICalls parseFloat toPrometheusTime exec measurementDuration params =
     (let promDuration = toPrometheusTime measurementDuration in
      case GetBoolOrDefault params ''useSimpleLatencyQuery'' False of
        Inl err \<Rightarrow> ([], Inl err)
      | Inr useSimple \<Rightarrow>
          (case (if useSimple then simpleLatencyLoop exec promDuration quantiles
                 else (let duration = toPrometheusTime
                             (latencyMeasurementDuration measurementDuration);
                           query = latencyQuery filters duration
                       in ([query], exec query))) of
             (issued1, Inl err) \<Rightarrow> (issued1, Inl err)
           | (issued1, Inr latencySamples) \<Rightarrow>
               (let query = countQuery filters promDuration in
                case exec query of
                  Inl err \<Rightarrow> (issued1 @ [query], Inl err)
                | Inr countSamples \<Rightarrow>
                    (case GetIntOrDefault params ''allowedSlowCalls'' 0 of
                       Inl err \<Rightarrow> (issued1 @ [query], Inl err)
                     | Inr allowedSlowCalls \<Rightarrow>
                         (case (if allowedSlowCalls \<noteq> 0
                                then countSlowQueryLoop exec promDuration
                                       [filterGetAndMutating, filterNamespaceList,
                                        filterClusterList]
                                else ([], Inr [])) of
                            (issued2, Inl err) \<Rightarrow> (issued1 @ [query] @ issued2, Inl err)
                          | (issued2, Inr countSlowSamples) \<Rightarrow>
                              (issued1 @ [query] @ issued2,
                               newFromSamples parseFloat latencySamples countSamples
                                 countSlowSamples))))))"

subsection \<open>Auxiliary notions and example data\<close>

text \<open>The key under which the loops of \<^verbatim>\<open>newFromSamples\<close> file a sample.\<close>

definition keyOf :: "sample \<Rightarrow> string" where
  "keyOf s =
     (case extractCommon s of (resource, subresource, verb, scope) \<Rightarrow>
        buildKey resource subresource verb scope)"

definition perc99 :: "apiCallMetric \<Rightarrow> int" where
  "perc99 call = sint (Perc99 (Latency call))"

text \<open>
  An instance of \<open>parseFloat\<close> for the examples: the values of
  \<^verbatim>\<open>strconv.ParseFloat\<close> on the quantile tags that occur in them; \<^verbatim>\<open>abc\<close>, on
  which it fails, is among the others.
\<close>

definition parseFloatExample :: "string \<Rightarrow> rat option" where
  "parseFloatExample txt =
     (if txt = ''0.5'' \<or> txt = ''0.50'' then Some (1 / 2)
      else if txt = ''0.9'' \<or> txt = ''0.90'' then Some (9 / 10)
      else if txt = ''0.99'' then Some (99 / 100)
      else None)"

definition podsLabels :: "string \<rightharpoonup> string" where
  "podsLabels = [''resource'' \<mapsto> ''pods'', ''verb'' \<mapsto> ''GET'', ''scope'' \<mapsto> ''resource'']"

definition podsLatencySample :: sample where
  "podsLatencySample = \<lparr>Metric = podsLabels(''quantile'' \<mapsto> ''0.99''), Value = 1 / 2\<rparr>"

definition podsCountSample :: sample where
  "podsCountSample = \<lparr>Metric = podsLabels, Value = 3\<rparr>"

definition podsZeroSample :: sample where
  "podsZeroSample = \<lparr>Metric = podsLabels, Value = 0\<rparr>"

definition malformedSample :: sample where
  "malformedSample = \<lparr>Metric = podsLabels(''quantile'' \<mapsto> ''abc''), Value = 1 / 2\<rparr>"

definition podsKey :: string where
  "podsKey = ''pods||GET|resource''"

definition podsCall :: apiCallMetric where
  "podsCall =
     \<lparr>Resource = ''pods'', Subresource = [], Verb = ''GET'', Scope = ''resource'',
      Latency = \<lparr>Perc50 = 0, Perc90 = 0, Perc99 = 500000000\<rparr>, Count = 3, SlowCount = 0\<rparr>"

text \<open>Two samples whose label tuples differ and whose keys agree.\<close>

definition barLatencySample :: sample where
  "barLatencySample =
     \<lparr>Metric = [''resource'' \<mapsto> ''a|b'', ''subresource'' \<mapsto> ''c'', ''verb'' \<mapsto> ''GET'',
                ''scope'' \<mapsto> ''namespace'', ''quantile'' \<mapsto> ''0.99''],
      Value = 1 / 2\<rparr>"

definition barCountSample :: sample where
  "barCountSample =
     \<lparr>Metric = [''resource'' \<mapsto> ''a'', ''subresource'' \<mapsto> ''b|c'', ''verb'' \<mapsto> ''GET'',
                ''scope'' \<mapsto> ''namespace''],
      Value = 3\<rparr>"

definition barCall :: apiCallMetric where
  "barCall =
     \<lparr>Resource = ''a|b'', Subresource = ''c'', Verb = ''GET'', Scope = ''namespace'',
      Latency = \<lparr>Perc50 = 0, Perc90 = 0, Perc99 = 500000000\<rparr>, Count = 3, SlowCount = 0\<rparr>"

text \<open>A cluster-wide LIST whose 99th percentile is 40 seconds.\<close>

definition slowListCall :: "int \<Rightarrow> apiCallMetric" where
  "slowListCall slow =
     \<lparr>Resource = ''pods'', Subresource = [], Verb = ''LIST'', Scope = ''cluster'',
      Latency = \<lparr>Perc50 = 0, Perc90 = 0, Perc99 = 40000000000\<rparr>, Count = 100,
      SlowCount = slow\<rparr>"

text \<open>Three metrics with 99th percentiles of 10, 500 and 50 milliseconds.\<close>

definition threeKeys :: "string list" where
  "threeKeys = [''a||GET|namespace'', ''b||GET|namespace'', ''c||GET|namespace'']"

definition threeMetrics :: apiCallMetrics where
  "threeMetrics =
     SetLatency
       (SetLatency
          (SetLatency Map.empty ''a'' [] ''GET'' ''namespace'' (99 / 100) 10000000)
          ''b'' [] ''GET'' ''namespace'' (99 / 100) 500000000)
       ''c'' [] ''GET'' ''namespace'' (99 / 100) 50000000"

text \<open>Two metrics known from count samples only: neither has a latency.\<close>

definition tieKeys :: "string list" where
  "tieKeys = [''a||GET|namespace'', ''b||GET|namespace'']"

definition tieMetrics :: apiCallMetrics where
  "tieMetrics =
     SetCount (SetCount Map.empty ''a'' [] ''GET'' ''namespace'' 7) ''b'' [] ''GET'' ''namespace'' 9"

text \<open>An executor that answers every query with no samples.\<close>

definition emptyExecutor :: executor where
  "emptyExecutor query = Inr []"

text \<open>
  An instance of \<open>toPrometheusTime\<close> for the examples: whole seconds, followed by
  \<^verbatim>\<open>s\<close>.
\<close>

definition secondsText :: "duration \<Rightarrow> string" where
  "secondsText d = showInt (sint d div 1000000000) @ ''s''"

definition negativeTolerance :: "string \<rightharpoonup> param" where
  "negativeTolerance = [''allowedSlowCalls'' \<mapsto> IntParam (- 1)]"

section \<open>Properties\<close>

subsection \<open>Threshold selection\<close>

lemmas duration_defs =
  Second_def Minute_def resourceThreshold_def namespaceThreshold_def clusterThreshold_def
  latencyWindowSize_def

text \<open>
  C1. The threshold of a metric is a function of its verb and scope alone, decided in
  this order: any verb other than LIST gives 1 second; LIST with scope cluster gives 30
  seconds; LIST with any other scope gives 5 seconds (in nanoseconds below).
\<close>

theorem getSLOThreshold_verb_scope:
  "(Verb ap \<noteq> ''LIST'' \<longrightarrow> sint (getSLOThreshold ap) = 1000000000) \<and>
   (Verb ap = ''LIST'' \<and> Scope ap = ''cluster'' \<longrightarrow> sint (getSLOThreshold ap) = 30000000000) \<and>
   (Verb ap = ''LIST'' \<and> Scope ap \<noteq> ''cluster'' \<longrightarrow> sint (getSLOThreshold ap) = 5000000000) \<and>
   (Verb ap' = Verb ap \<and> Scope ap' = Scope ap \<longrightarrow> getSLOThreshold ap' = getSLOThreshold ap)"
  by (simp add: getSLOThreshold_def duration_defs)

theorem getSLOThreshold_verb_scope_witness:
  "sint (getSLOThreshold podsCall) = 1000000000 \<and>
   sint (getSLOThreshold (slowListCall 5)) = 30000000000 \<and>
   sint (getSLOThreshold barCall) = 1000000000 \<and>
   sint (getSLOThreshold (barCall\<lparr>Verb := ''LIST''\<rparr>)) = 5000000000 \<and>
   getSLOThreshold (slowListCall 15) = getSLOThreshold (slowListCall 5)"
  using getSLOThreshold_verb_scope [of podsCall podsCall]
    getSLOThreshold_verb_scope [of "slowListCall 5" "slowListCall 15"]
    getSLOThreshold_verb_scope [of barCall barCall]
    getSLOThreshold_verb_scope [of "barCall\<lparr>Verb := ''LIST''\<rparr>" barCall]
  by (simp add: podsCall_def slowListCall_def barCall_def)

subsection \<open>Validation of one metric\<close>

text \<open>
  C2. For every metric and every tolerance, \<^verbatim>\<open>Validate\<close> returns an error exactly when
  the 99th percentile exceeds the metric's threshold and the metric is not exempted;
  it is exempted exactly when the tolerance is positive and the slow count is at most
  the tolerance. An exempted metric passes whatever its percentile.
\<close>

theorem Validate_violation_iff:
  "(Validate ap allowedSlowCalls \<noteq> None \<longleftrightarrow>
      sint (getSLOThreshold ap) < sint (Perc99 (Latency ap)) \<and>
      \<not> (0 < allowedSlowCalls \<and> SlowCount ap \<le> allowedSlowCalls)) \<and>
   (0 < allowedSlowCalls \<and> SlowCount ap \<le> allowedSlowCalls \<longrightarrow>
      Validate ap allowedSlowCalls = None)"
  by (simp add: Validate_def VerifyThreshold_def Let_def word_sless_alt)

theorem Validate_violation_iff_witness:
  "Validate (slowListCall 5) 10 = None \<and> Validate (slowListCall 15) 10 \<noteq> None \<and>
   Validate (slowListCall 5) 0 \<noteq> None"
  using Validate_violation_iff [of "slowListCall 5" 10]
    Validate_violation_iff [of "slowListCall 15" 10]
    Validate_violation_iff [of "slowListCall 5" 0]
  by (simp add: slowListCall_def getSLOThreshold_def duration_defs)

subsection \<open>Updates of the aggregate\<close>

lemmas set_defs = SetLatency_def SetCount_def SetSlowCount_def getAPICall_def Let_def

lemma countLoop_append: "countLoop (xs @ ys) m = countLoop ys (countLoop xs m)"
  by (induction xs arbitrary: m) (simp_all split: prod.splits)

lemma countSlowLoop_append: "countSlowLoop (xs @ ys) m = countSlowLoop ys (countSlowLoop xs m)"
  by (induction xs arbitrary: m) (simp_all split: prod.splits)

text \<open>
  C3. A count or slow-count update with value zero leaves the field as it was: a metric
  recorded under the key keeps its count and its slow count. The same holds at the end
  of any sequence of count (slow-count) samples: a last sample that rounds to zero
  changes nothing.
\<close>

theorem zero_update_keeps_value:
  "(m (buildKey r sr v sc) = Some call \<longrightarrow>
      map_option Count (SetCount m r sr v sc 0 (buildKey r sr v sc)) = Some (Count call) \<and>
      map_option SlowCount (SetSlowCount m r sr v sc 0 (buildKey r sr v sc))
        = Some (SlowCount call)) \<and>
   (sampleCount z = 0 \<longrightarrow>
      countLoop (ss @ [z]) m' = countLoop ss m' \<and>
      countSlowLoop (ss @ [z]) m' = countSlowLoop ss m')"
  by (simp add: SetCount_def SetSlowCount_def countLoop_append countSlowLoop_append
      split: prod.splits)

theorem zero_update_keeps_value_witness:
  "map_option Count (SetCount [podsKey \<mapsto> podsCall] ''pods'' [] ''GET'' ''resource'' 0 podsKey)
     = Some 3 \<and>
   sampleCount podsZeroSample = 0 \<and>
   countLoop ([podsCountSample] @ [podsZeroSample]) Map.empty
     = countLoop [podsCountSample] Map.empty"
proof -
  have k: "buildKey ''pods'' [] ''GET'' ''resource'' = podsKey"
    by (simp add: buildKey_def podsKey_def)
  have z: "sampleCount podsZeroSample = 0"
    by (simp add: sampleCount_def podsZeroSample_def Round_def intOfFloat_def floor_eq_iff)
  show ?thesis
    using zero_update_keeps_value [where m = "[podsKey \<mapsto> podsCall]" and r = "''pods''"
        and sr = "[]" and v = "''GET''" and sc = "''resource''" and call = podsCall
        and z = podsZeroSample and ss = "[podsCountSample]" and m' = Map.empty] k z
    by (simp add: podsCall_def)
qed


lemma upd_Count_Latency:
  "(x :: apiCallMetric)\<lparr>Count := c, Latency := l\<rparr> = x\<lparr>Latency := l, Count := c\<rparr>"
  by (cases x) simp

lemma upd_SlowCount_Latency:
  "(x :: apiCallMetric)\<lparr>SlowCount := c, Latency := l\<rparr> = x\<lparr>Latency := l, SlowCount := c\<rparr>"
  by (cases x) simp

lemma upd_SlowCount_Count:
  "(x :: apiCallMetric)\<lparr>SlowCount := c, Count := d\<rparr> = x\<lparr>Count := d, SlowCount := c\<rparr>"
  by (cases x) simp

text \<open>Updates for one label tuple commute when they write different fields.\<close>

lemma SetLatency_SetCount_commute:
  "SetLatency (SetCount m r sr v sc c) r sr v sc q l
     = SetCount (SetLatency m r sr v sc q l) r sr v sc c"
  by (simp add: set_defs upd_Count_Latency split: option.splits)

lemma SetLatency_SetSlowCount_commute:
  "SetLatency (SetSlowCount m r sr v sc c) r sr v sc q l
     = SetSlowCount (SetLatency m r sr v sc q l) r sr v sc c"
  by (simp add: set_defs upd_SlowCount_Latency split: option.splits)

lemma SetCount_SetSlowCount_commute:
  "SetSlowCount (SetCount m r sr v sc c) r sr v sc c'
     = SetCount (SetSlowCount m r sr v sc c') r sr v sc c"
  by (simp add: set_defs upd_SlowCount_Count split: option.splits)

lemma dom_SetLatency:
  "dom (SetLatency m r sr v sc q l) = insert (buildKey r sr v sc) (dom m)"
  by (simp add: set_defs split: option.splits)

lemma dom_SetCount:
  "dom (SetCount m r sr v sc c) = (if c = 0 then dom m else insert (buildKey r sr v sc) (dom m))"
  by (simp add: set_defs split: option.splits)

lemma dom_SetSlowCount:
  "dom (SetSlowCount m r sr v sc c)
     = (if c = 0 then dom m else insert (buildKey r sr v sc) (dom m))"
  by (simp add: set_defs split: option.splits)

lemma SetLatency_other: "k \<noteq> buildKey r sr v sc \<Longrightarrow> SetLatency m r sr v sc q l k = m k"
  by (simp add: set_defs split: option.splits)

lemma SetCount_other:
  "c = 0 \<or> k \<noteq> buildKey r sr v sc \<Longrightarrow> SetCount m r sr v sc c k = m k"
  by (auto simp: set_defs split: option.splits)

lemma SetSlowCount_other:
  "c = 0 \<or> k \<noteq> buildKey r sr v sc \<Longrightarrow> SetSlowCount m r sr v sc c k = m k"
  by (auto simp: set_defs split: option.splits)

subsection \<open>The three loops of newFromSamples\<close>

lemma map_sum_id_comp: "map_sum id f (map_sum id g x) = map_sum id (f \<circ> g) x"
  by (cases x) simp_all

lemma latencyLoop_SetCount:
  "\<forall>s\<in>set ss. extractCommon s = (r, sr, v, sc) \<Longrightarrow>
   latencyLoop pf ss (SetCount m r sr v sc c)
     = map_sum id (\<lambda>m. SetCount m r sr v sc c) (latencyLoop pf ss m)"
  by (induction ss arbitrary: m) (simp_all add: SetLatency_SetCount_commute split: option.splits)

lemma latencyLoop_SetSlowCount:
  "\<forall>s\<in>set ss. extractCommon s = (r, sr, v, sc) \<Longrightarrow>
   latencyLoop pf ss (SetSlowCount m r sr v sc c)
     = map_sum id (\<lambda>m. SetSlowCount m r sr v sc c) (latencyLoop pf ss m)"
  by (induction ss arbitrary: m)
    (simp_all add: SetLatency_SetSlowCount_commute split: option.splits)

lemma latencyLoop_countLoop:
  assumes "\<forall>s\<in>set lat. extractCommon s = (r, sr, v, sc)"
    and "\<forall>s\<in>set cnt. extractCommon s = (r, sr, v, sc)"
  shows "latencyLoop pf lat (countLoop cnt m) = map_sum id (countLoop cnt) (latencyLoop pf lat m)"
  using assms(2)
proof (induction cnt arbitrary: m)
  case Nil
  show ?case by (cases "latencyLoop pf lat m") simp_all
next
  case (Cons s ss)
  then show ?case
    by (cases "latencyLoop pf lat m") (simp_all add: latencyLoop_SetCount [OF assms(1)])
qed

lemma latencyLoop_countSlowLoop:
  assumes "\<forall>s\<in>set lat. extractCommon s = (r, sr, v, sc)"
    and "\<forall>s\<in>set slow. extractCommon s = (r, sr, v, sc)"
  shows "latencyLoop pf lat (countSlowLoop slow m)
     = map_sum id (countSlowLoop slow) (latencyLoop pf lat m)"
  using assms(2)
proof (induction slow arbitrary: m)
  case Nil
  show ?case by (cases "latencyLoop pf lat m") simp_all
next
  case (Cons s ss)
  then show ?case
    by (cases "latencyLoop pf lat m") (simp_all add: latencyLoop_SetSlowCount [OF assms(1)])
qed

lemma countLoop_SetSlowCount:
  "\<forall>s\<in>set ss. extractCommon s = (r, sr, v, sc) \<Longrightarrow>
   countLoop ss (SetSlowCount m r sr v sc c) = SetSlowCount (countLoop ss m) r sr v sc c"
  by (induction ss arbitrary: m) (simp_all add: SetCount_SetSlowCount_commute [symmetric])

lemma countSlowLoop_countLoop:
  "\<forall>s\<in>set cnt. extractCommon s = (r, sr, v, sc) \<Longrightarrow>
   \<forall>s\<in>set slow. extractCommon s = (r, sr, v, sc) \<Longrightarrow>
   countSlowLoop slow (countLoop cnt m) = countLoop cnt (countSlowLoop slow m)"
  by (induction slow arbitrary: m) (simp_all add: countLoop_SetSlowCount [symmetric])

lemma dom_countLoop:
  "\<forall>s\<in>set ss. extractCommon s = (r, sr, v, sc) \<Longrightarrow>
   dom (countLoop ss m)
     = (if \<exists>s\<in>set ss. sampleCount s \<noteq> 0 then insert (buildKey r sr v sc) (dom m) else dom m)"
  by (induction ss arbitrary: m) (auto simp: dom_SetCount)

lemma dom_countSlowLoop:
  "\<forall>s\<in>set ss. extractCommon s = (r, sr, v, sc) \<Longrightarrow>
   dom (countSlowLoop ss m)
     = (if \<exists>s\<in>set ss. sampleCount s \<noteq> 0 then insert (buildKey r sr v sc) (dom m) else dom m)"
  by (induction ss arbitrary: m) (auto simp: dom_SetSlowCount)

lemma dom_latencyLoop:
  "\<forall>s\<in>set ss. extractCommon s = (r, sr, v, sc) \<Longrightarrow> latencyLoop pf ss m = Inr m' \<Longrightarrow>
   dom m' = (if ss = [] then dom m else insert (buildKey r sr v sc) (dom m))"
  by (induction ss arbitrary: m) (auto simp: dom_SetLatency split: option.splits)

lemma latencyLoop_other:
  "\<forall>s\<in>set ss. keyOf s \<noteq> k \<Longrightarrow> latencyLoop pf ss m = Inr m' \<Longrightarrow> m' k = m k"
  by (induction ss arbitrary: m)
    (auto simp: keyOf_def SetLatency_other split: option.splits prod.splits)

lemma countLoop_other:
  "\<forall>s\<in>set ss. keyOf s = k \<longrightarrow> sampleCount s = 0 \<Longrightarrow> countLoop ss m k = m k"
  by (induction ss arbitrary: m) (auto simp: keyOf_def SetCount_other split: prod.splits)

lemma countSlowLoop_other:
  "\<forall>s\<in>set ss. keyOf s = k \<longrightarrow> sampleCount s = 0 \<Longrightarrow> countSlowLoop ss m k = m k"
  by (induction ss arbitrary: m) (auto simp: keyOf_def SetSlowCount_other split: prod.splits)

lemma latencyLoop_isl:
  "isl (latencyLoop pf ss m) \<longleftrightarrow> (\<exists>s\<in>set ss. pf (label s ''quantile'') = None)"
  by (induction ss arbitrary: m) (auto split: option.splits prod.splits)

text \<open>Evaluation of the example samples.\<close>

lemma pods_extractCommon:
  "extractCommon podsLatencySample = (''pods'', [], ''GET'', ''resource'')"
  "extractCommon podsCountSample = (''pods'', [], ''GET'', ''resource'')"
  "extractCommon podsZeroSample = (''pods'', [], ''GET'', ''resource'')"
  "extractCommon malformedSample = (''pods'', [], ''GET'', ''resource'')"
  by (simp_all add: extractCommon_def label_def podsLatencySample_def podsCountSample_def
      podsZeroSample_def malformedSample_def podsLabels_def)

lemma pods_buildKey: "buildKey ''pods'' [] ''GET'' ''resource'' = podsKey"
  by (simp add: buildKey_def podsKey_def)

lemma pods_sampleCount: "sampleCount podsCountSample = 3" "sampleCount podsZeroSample = 0"
  by (simp_all add: sampleCount_def podsCountSample_def podsZeroSample_def Round_def
      intOfFloat_def floor_eq_iff)

lemma pods_quantile:
  "parseFloatExample (label podsLatencySample ''quantile'') = Some (99 / 100)"
  "parseFloatExample (label malformedSample ''quantile'') = None"
  by (simp_all add: parseFloatExample_def label_def podsLatencySample_def malformedSample_def)

lemma pods_sampleLatency: "sampleLatency podsLatencySample = 500000000"
  by (simp add: sampleLatency_def podsLatencySample_def Second_def intOfFloat_def)

lemma pods_newFromSamples:
  "newFromSamples parseFloatExample [podsLatencySample] [podsCountSample] []
     = Inr [podsKey \<mapsto> podsCall]"
  by (simp add: newFromSamples_def pods_extractCommon pods_buildKey pods_sampleCount
      pods_quantile pods_sampleLatency set_defs SetQuantile_def zeroLatency_def podsCall_def)

lemma mset_insert_by: "mset (insert_by lessFn x xs) = add_mset x (mset xs)"
  by (induction xs) simp_all

lemma mset_sort_Slice: "mset (sort_Slice lessFn xs) = mset xs"
  by (induction xs) (simp_all add: sort_Slice_def mset_insert_by)

lemma set_sort_Slice: "set (sort_Slice lessFn xs) = set xs"
  using mset_sort_Slice [of lessFn xs] by (metis set_mset_mset)

lemma set_insert_by: "set (insert_by lessFn x xs) = insert x (set xs)"
  using mset_insert_by [of lessFn x xs] by (metis set_mset_mset set_mset_add_mset_insert)

text \<open>
  C4 (as amended). Let every latency, count and slow-count sample carry the same label
  tuple. Then running the three loops in any of the six orders gives the result of
  \<^verbatim>\<open>newFromSamples\<close>, which runs latency, count, slow count. The resulting map holds
  no other key than the tuple's, and it holds that key exactly when there is a latency
  sample, or a count or slow-count sample that rounds to a nonzero value.
\<close>

theorem newFromSamples_order_independent:
  assumes "\<forall>s\<in>set lat \<union> set cnt \<union> set slow. extractCommon s = (r, sr, v, sc)"
  shows "map_sum id (countSlowLoop slow) (latencyLoop pf lat (countLoop cnt Map.empty))
      = newFromSamples pf lat cnt slow \<and>
    latencyLoop pf lat (countSlowLoop slow (countLoop cnt Map.empty))
      = newFromSamples pf lat cnt slow \<and>
    latencyLoop pf lat (countLoop cnt (countSlowLoop slow Map.empty))
      = newFromSamples pf lat cnt slow \<and>
    map_sum id (countLoop cnt) (latencyLoop pf lat (countSlowLoop slow Map.empty))
      = newFromSamples pf lat cnt slow \<and>
    map_sum id (countLoop cnt \<circ> countSlowLoop slow) (latencyLoop pf lat Map.empty)
      = newFromSamples pf lat cnt slow \<and>
    (\<forall>m. newFromSamples pf lat cnt slow = Inr m \<longrightarrow>
       dom m \<subseteq> {buildKey r sr v sc} \<and>
       (buildKey r sr v sc \<in> dom m \<longleftrightarrow>
          lat \<noteq> [] \<or> (\<exists>s\<in>set cnt. sampleCount s \<noteq> 0)
            \<or> (\<exists>s\<in>set slow. sampleCount s \<noteq> 0)))"
proof -
  have L: "\<forall>s\<in>set lat. extractCommon s = (r, sr, v, sc)"
    and C: "\<forall>s\<in>set cnt. extractCommon s = (r, sr, v, sc)"
    and S: "\<forall>s\<in>set slow. extractCommon s = (r, sr, v, sc)"
    using assms by auto
  have nfs: "newFromSamples pf lat cnt slow =
      map_sum id (countSlowLoop slow \<circ> countLoop cnt) (latencyLoop pf lat Map.empty)"
    by (cases "latencyLoop pf lat Map.empty") (simp_all add: newFromSamples_def)
  have o1: "map_sum id (countSlowLoop slow) (latencyLoop pf lat (countLoop cnt Map.empty)) =
      newFromSamples pf lat cnt slow"
    by (simp add: nfs latencyLoop_countLoop [OF L C] map_sum_id_comp)
  have o2: "latencyLoop pf lat (countSlowLoop slow (countLoop cnt Map.empty)) =
      newFromSamples pf lat cnt slow"
    by (simp add: nfs latencyLoop_countSlowLoop [OF L S] latencyLoop_countLoop [OF L C]
        map_sum_id_comp)
  have o3: "latencyLoop pf lat (countLoop cnt (countSlowLoop slow Map.empty)) =
      newFromSamples pf lat cnt slow"
    using o2 by (simp add: countSlowLoop_countLoop [OF C S])
  have o4: "map_sum id (countLoop cnt) (latencyLoop pf lat (countSlowLoop slow Map.empty)) =
      newFromSamples pf lat cnt slow"
    using o3 by (simp add: latencyLoop_countLoop [OF L C])
  have o5: "map_sum id (countLoop cnt \<circ> countSlowLoop slow) (latencyLoop pf lat Map.empty) =
      newFromSamples pf lat cnt slow"
    using o4 by (simp add: latencyLoop_countSlowLoop [OF L S] map_sum_id_comp)
  have d: "dom m \<subseteq> {buildKey r sr v sc} \<and>
       (buildKey r sr v sc \<in> dom m \<longleftrightarrow>
          lat \<noteq> [] \<or> (\<exists>s\<in>set cnt. sampleCount s \<noteq> 0) \<or> (\<exists>s\<in>set slow. sampleCount s \<noteq> 0))"
    if "newFromSamples pf lat cnt slow = Inr m" for m
  proof -
    from that obtain m0 where m0: "latencyLoop pf lat Map.empty = Inr m0"
      and m: "m = countSlowLoop slow (countLoop cnt m0)"
      by (auto simp: newFromSamples_def split: sum.splits)
    have "dom m0 = (if lat = [] then {} else {buildKey r sr v sc})"
      using dom_latencyLoop [OF L m0] by simp
    then show ?thesis
      by (simp add: m dom_countSlowLoop [OF S] dom_countLoop [OF C])
  qed
  show ?thesis using o1 o2 o3 o4 o5 d by blast
qed

theorem newFromSamples_order_independent_witness:
  "extractCommon podsLatencySample = (''pods'', [], ''GET'', ''resource'') \<and>
   extractCommon podsCountSample = (''pods'', [], ''GET'', ''resource'') \<and>
   newFromSamples parseFloatExample [podsLatencySample] [podsCountSample] []
     = Inr [podsKey \<mapsto> podsCall] \<and>
   latencyLoop parseFloatExample [podsLatencySample]
       (countSlowLoop [] (countLoop [podsCountSample] Map.empty))
     = Inr [podsKey \<mapsto> podsCall]"
  using newFromSamples_order_independent [where lat = "[podsLatencySample]"
      and cnt = "[podsCountSample]" and slow = "[]" and r = "''pods''" and sr = "[]"
      and v = "''GET''" and sc = "''resource''" and pf = parseFloatExample]
  by (simp add: pods_extractCommon pods_newFromSamples)

text \<open>
  The claim as stated promises a record for the key of any sample sets that share it.
  A count sample of value zero, alone, leaves the aggregate empty.
\<close>

theorem newFromSamples_one_record_counterexample:
  "extractCommon podsZeroSample = (''pods'', [], ''GET'', ''resource'') \<and>
   buildKey ''pods'' [] ''GET'' ''resource'' = podsKey \<and>
   newFromSamples parseFloatExample [] [podsZeroSample] [] = Inr Map.empty"
  by (simp add: newFromSamples_def pods_extractCommon pods_buildKey pods_sampleCount
      SetCount_def)

text \<open>
  C7. If some latency sample has a quantile tag that does not parse, \<^verbatim>\<open>newFromSamples\<close>
  returns an error, and so no metrics; if the tag of every latency sample parses, it
  returns metrics.
\<close>

theorem newFromSamples_fails_iff:
  "((\<exists>s\<in>set lat. pf (label s ''quantile'') = None) \<longrightarrow>
      (\<exists>e. newFromSamples pf lat cnt slow = Inl e)) \<and>
   ((\<forall>s\<in>set lat. pf (label s ''quantile'') \<noteq> None) \<longrightarrow>
      (\<exists>m. newFromSamples pf lat cnt slow = Inr m))"
  using latencyLoop_isl [of pf lat Map.empty]
  by (cases "latencyLoop pf lat Map.empty") (auto simp: newFromSamples_def)

theorem newFromSamples_fails_iff_witness:
  "parseFloatExample (label malformedSample ''quantile'') = None \<and>
   isl (newFromSamples parseFloatExample [podsLatencySample, malformedSample]
          [podsCountSample] []) \<and>
   parseFloatExample (label podsLatencySample ''quantile'') \<noteq> None \<and>
   \<not> isl (newFromSamples parseFloatExample [podsLatencySample] [podsCountSample] [])"
  using newFromSamples_fails_iff [of "[podsLatencySample, malformedSample]" parseFloatExample
      "[podsCountSample]" "[]"]
    newFromSamples_fails_iff [of "[podsLatencySample]" parseFloatExample
      "[podsCountSample]" "[]"]
  by (auto simp: pods_quantile)

text \<open>
  C8. The key joins the four labels with a bar, so moving a bar between neighbouring
  labels keeps the key. The samples for the tuples (a|b, c, GET, namespace) and
  (a, b|c, GET, namespace) end up in one record, filed under the labels seen first.
\<close>

theorem buildKey_not_injective:
  "buildKey (r @ ''|'' @ x) sr v sc = buildKey r (x @ ''|'' @ sr) v sc \<and>
   extractCommon barLatencySample = (''a|b'', ''c'', ''GET'', ''namespace'') \<and>
   extractCommon barCountSample = (''a'', ''b|c'', ''GET'', ''namespace'') \<and>
   keyOf barLatencySample = keyOf barCountSample \<and>
   newFromSamples parseFloatExample [barLatencySample] [barCountSample] []
     = Inr [''a|b|c|GET|namespace'' \<mapsto> barCall]"
proof -
  have e: "extractCommon barLatencySample = (''a|b'', ''c'', ''GET'', ''namespace'')"
    "extractCommon barCountSample = (''a'', ''b|c'', ''GET'', ''namespace'')"
    by (simp_all add: extractCommon_def label_def barLatencySample_def barCountSample_def)
  have k: "buildKey ''a|b'' ''c'' ''GET'' ''namespace'' = ''a|b|c|GET|namespace''"
    "buildKey ''a'' ''b|c'' ''GET'' ''namespace'' = ''a|b|c|GET|namespace''"
    by (simp_all add: buildKey_def)
  have q: "parseFloatExample (label barLatencySample ''quantile'') = Some (99 / 100)"
    by (simp add: parseFloatExample_def label_def barLatencySample_def)
  have l: "sampleLatency barLatencySample = 500000000"
    by (simp add: sampleLatency_def barLatencySample_def Second_def intOfFloat_def)
  have c: "sampleCount barCountSample = 3"
    by (simp add: sampleCount_def barCountSample_def Round_def intOfFloat_def floor_eq_iff)
  have "newFromSamples parseFloatExample [barLatencySample] [barCountSample] []
     = Inr [''a|b|c|GET|namespace'' \<mapsto> barCall]"
    by (simp add: newFromSamples_def e k q l c set_defs SetQuantile_def zeroLatency_def
        barCall_def)
  then show ?thesis
    by (simp add: e k keyOf_def) (simp add: buildKey_def)
qed

text \<open>
  C9. For a key that the aggregate does not hold, a count or slow-count update of value
  zero returns the aggregate unchanged and creates no record, while a latency update
  creates one. Hence a key that no latency sample carries and whose count and
  slow-count samples all round to zero is absent from the aggregate that
  \<^verbatim>\<open>newFromSamples\<close> returns, and every item of the report comes from another key.
\<close>

theorem zero_update_creates_no_record:
  assumes "m (buildKey r sr v sc) = None"
  shows "SetCount m r sr v sc 0 = m \<and> SetSlowCount m r sr v sc 0 = m \<and>
    SetCount m r sr v sc 0 (buildKey r sr v sc) = None \<and>
    SetSlowCount m r sr v sc 0 (buildKey r sr v sc) = None \<and>
    SetLatency m r sr v sc q l (buildKey r sr v sc) \<noteq> None \<and>
    ((\<forall>s\<in>set lat. keyOf s \<noteq> buildKey r sr v sc) \<and>
     (\<forall>s\<in>set cnt \<union> set slow. keyOf s = buildKey r sr v sc \<longrightarrow> sampleCount s = 0) \<and>
     newFromSamples pf lat cnt slow = Inr m' \<longrightarrow>
       m' (buildKey r sr v sc) = None \<and>
       set (DataItems (ToPerfData keys m'))
         \<subseteq> toDataItem ` {call. \<exists>k. k \<noteq> buildKey r sr v sc \<and> m' k = Some call})"
proof -
  let ?k = "buildKey r sr v sc"
  have upd: "SetCount m r sr v sc 0 = m" "SetSlowCount m r sr v sc 0 = m"
    by (simp_all add: SetCount_def SetSlowCount_def)
  have lat: "SetLatency m r sr v sc q l ?k \<noteq> None"
    using dom_SetLatency [of m r sr v sc q l] by blast
  have rep: "m' ?k = None \<and>
      set (DataItems (ToPerfData keys m')) \<subseteq> toDataItem ` {call. \<exists>k. k \<noteq> ?k \<and> m' k = Some call}"
    if L: "\<forall>s\<in>set lat. keyOf s \<noteq> ?k"
      and Z: "\<forall>s\<in>set cnt \<union> set slow. keyOf s = ?k \<longrightarrow> sampleCount s = 0"
      and R: "newFromSamples pf lat cnt slow = Inr m'"
  proof -
    from R obtain m0 where m0: "latencyLoop pf lat Map.empty = Inr m0"
      and m': "m' = countSlowLoop slow (countLoop cnt m0)"
      by (auto simp: newFromSamples_def split: sum.splits)
    have "m0 ?k = None"
      using latencyLoop_other [OF L m0] by simp
    moreover have "m' ?k = m0 ?k"
      using Z by (simp add: m' countSlowLoop_other countLoop_other)
    ultimately have none: "m' ?k = None" by simp
    have "set (sorted_metrics keys m') \<subseteq> {call. \<exists>k. m' k = Some call}"
      by (auto simp: sorted_metrics_def set_sort_Slice List.map_filter_def)
    also have "\<dots> = {call. \<exists>k. k \<noteq> ?k \<and> m' k = Some call}"
    proof -
      have "k \<noteq> ?k" if "m' k = Some call" for k call
        using that none by auto
      then show ?thesis by blast
    qed
    finally show ?thesis
      using none by (auto simp: ToPerfData_def)
  qed
  show ?thesis
    using upd lat rep assms by simp
qed

theorem zero_update_creates_no_record_witness:
  "Map.empty (buildKey ''pods'' [] ''GET'' ''resource'') = (None :: apiCallMetric option) \<and>
   SetCount Map.empty ''pods'' [] ''GET'' ''resource'' 0 = Map.empty \<and>
   SetLatency Map.empty ''pods'' [] ''GET'' ''resource'' (99 / 100) 500000000
     (buildKey ''pods'' [] ''GET'' ''resource'') \<noteq> None \<and>
   keyOf podsZeroSample = buildKey ''pods'' [] ''GET'' ''resource'' \<and>
   sampleCount podsZeroSample = 0 \<and>
   newFromSamples parseFloatExample [] [podsZeroSample] [] = Inr Map.empty \<and>
   DataItems (ToPerfData [podsKey] Map.empty) = []"
proof -
  have n: "newFromSamples parseFloatExample [] [podsZeroSample] [] = Inr Map.empty"
    by (simp add: newFromSamples_def pods_extractCommon pods_sampleCount SetCount_def)
  have k: "keyOf podsZeroSample = buildKey ''pods'' [] ''GET'' ''resource''"
    by (simp add: keyOf_def pods_extractCommon)
  have "set (DataItems (ToPerfData [podsKey] Map.empty)) \<subseteq> {}"
    using zero_update_creates_no_record [where m = Map.empty and r = "''pods''" and sr = "[]"
        and v = "''GET''" and sc = "''resource''" and lat = "[]" and cnt = "[podsZeroSample]"
        and slow = "[]" and pf = parseFloatExample and m' = Map.empty and keys = "[podsKey]"]
      n k pods_sampleCount
    by simp
  then have "DataItems (ToPerfData [podsKey] Map.empty) = []" by simp
  then show ?thesis
    using zero_update_creates_no_record [where m = Map.empty and r = "''pods''" and sr = "[]"
        and v = "''GET''" and sc = "''resource''" and q = "99 / 100" and l = 500000000]
      n k pods_sampleCount
    by simp
qed

subsection \<open>The order of the report\<close>

lemma sorted_insert_by:
  fixes rank :: "'a \<Rightarrow> int"
  assumes "\<And>a b. lessFn a b \<longleftrightarrow> rank b < rank a"
    and "sorted_wrt (\<lambda>a b. rank b \<le> rank a) xs"
  shows "sorted_wrt (\<lambda>a b. rank b \<le> rank a) (insert_by lessFn x xs)"
  using assms(2)
proof (induction xs)
  case Nil
  then show ?case by simp
next
  case (Cons y ys)
  show ?case
  proof (cases "lessFn y x")
    case True
    then have "rank x < rank y" by (simp add: assms(1))
    with Cons show ?thesis
      using True by (auto simp: set_insert_by)
  next
    case False
    then have "rank y \<le> rank x" by (simp add: assms(1))
    with Cons.prems show ?thesis
      using False by (auto intro: order_trans)
  qed
qed

lemma sorted_sort_Slice:
  fixes rank :: "'a \<Rightarrow> int"
  assumes "\<And>a b. lessFn a b \<longleftrightarrow> rank b < rank a"
  shows "sorted_wrt (\<lambda>a b. rank b \<le> rank a) (sort_Slice lessFn xs)"
proof (induction xs)
  case Nil
  then show ?case by (simp add: sort_Slice_def)
next
  case (Cons x xs)
  then show ?case
    by (simp add: sort_Slice_def sorted_insert_by [OF assms])
qed

lemma descending_distinct_strict:
  fixes rank :: "'a \<Rightarrow> int"
  shows "sorted_wrt (\<lambda>a b. rank b \<le> rank a) xs \<Longrightarrow> distinct (map rank xs)
    \<Longrightarrow> sorted_wrt (\<lambda>a b. rank b < rank a) xs"
proof (induction xs)
  case Nil
  then show ?case by simp
next
  case (Cons x xs)
  have "rank y < rank x" if "y \<in> set xs" for y
  proof -
    have "rank y \<le> rank x" using Cons.prems(1) that by simp
    moreover have "rank x \<notin> rank ` set xs" using Cons.prems(2) by simp
    then have "rank y \<noteq> rank x" using that by (metis imageI)
    ultimately show ?thesis by simp
  qed
  with Cons show ?case by simp
qed

lemma map_filter_dom:
  "set keys \<subseteq> dom m \<Longrightarrow> List.map_filter m keys = map (\<lambda>k. the (m k)) keys"
  by (induction keys) (auto simp: List.map_filter_simps)

lemma toMillis_mono:
  assumes "sint a \<le> sint b"
  shows "toMillis a \<le> toMillis b"
proof -
  have "(of_int (sint a) :: rat) \<le> of_int (sint b)"
    using assms by (simp only: of_int_le_iff)
  then have "(of_int (sint a) :: rat) / 1000000 \<le> of_int (sint b) / 1000000"
    by (rule divide_right_mono) simp
  then show ?thesis by (simp only: toMillis_def)
qed

text \<open>
  C5 (as amended). Let \<open>keys\<close> list the keys of the aggregate, each once, in the order in
  which Go ranges over the map. The sorted list holds every record once; along it the
  99th percentile never increases, and it decreases strictly when no two records have
  the same 99th percentile. The report renders the records in this order, so its
  Perc99 values never increase either.
\<close>

theorem report_descending:
  assumes "distinct keys" and "set keys = dom m"
  shows "mset (sorted_metrics keys m) = image_mset (\<lambda>k. the (m k)) (mset keys) \<and>
    set (sorted_metrics keys m) = ran m \<and>
    sorted_wrt (\<lambda>a b. sint (Perc99 (Latency b)) \<le> sint (Perc99 (Latency a)))
      (sorted_metrics keys m) \<and>
    (inj_on (\<lambda>k. Perc99 (Latency (the (m k)))) (dom m) \<longrightarrow>
       sorted_wrt (\<lambda>a b. Perc99 (Latency b) <s Perc99 (Latency a)) (sorted_metrics keys m)) \<and>
    DataItems (ToPerfData keys m) = map toDataItem (sorted_metrics keys m) \<and>
    sorted_wrt (\<lambda>a b. b \<le> a)
      (map (\<lambda>item. the (Data item ''Perc99'')) (DataItems (ToPerfData keys m)))"
proof -
  let ?all = "map (\<lambda>k. the (m k)) keys"
  let ?out = "sorted_metrics keys m"
  have all: "List.map_filter m keys = ?all"
    using assms(2) by (intro map_filter_dom) simp
  have ms: "mset ?out = image_mset (\<lambda>k. the (m k)) (mset keys)"
    by (simp add: sorted_metrics_def all mset_sort_Slice)
  have "set ?out = (\<lambda>k. the (m k)) ` dom m"
    using assms(2) by (simp add: sorted_metrics_def all set_sort_Slice)
  also have "\<dots> = ran m"
    by (force simp: ran_def dom_def image_iff)
  finally have st: "set ?out = ran m" .
  have srt: "sorted_wrt (\<lambda>a b. perc99 b \<le> perc99 a) ?out"
    unfolding sorted_metrics_def
    by (rule sorted_sort_Slice) (simp add: perc99_def word_sless_alt)
  have strict: "sorted_wrt (\<lambda>a b. Perc99 (Latency b) <s Perc99 (Latency a)) ?out"
    if inj: "inj_on (\<lambda>k. Perc99 (Latency (the (m k)))) (dom m)"
  proof -
    have "inj_on (\<lambda>k. perc99 (the (m k))) (set keys)"
      using inj assms(2)
      by (auto simp: inj_on_def perc99_def word_eq_iff_signed [where ?'a = int])
    then have "distinct (map perc99 ?all)"
      using assms(1) by (simp add: distinct_map comp_def)
    moreover have "mset ?out = mset ?all"
      by (simp add: sorted_metrics_def all mset_sort_Slice)
    then have "mset (map perc99 ?out) = mset (map perc99 ?all)"
      by (simp only: mset_map)
    ultimately have "distinct (map perc99 ?out)"
      by (metis mset_eq_imp_distinct_iff)
    with srt have "sorted_wrt (\<lambda>a b. perc99 b < perc99 a) ?out"
      by (rule descending_distinct_strict)
    then show ?thesis by (simp add: perc99_def word_sless_alt)
  qed
  have items: "DataItems (ToPerfData keys m) = map toDataItem ?out"
    by (simp add: ToPerfData_def)
  have "sorted_wrt (\<lambda>a b. toMillis (Perc99 (Latency b)) \<le> toMillis (Perc99 (Latency a))) ?out"
    using srt by (rule sorted_wrt_mono_rel [rotated]) (simp add: perc99_def toMillis_mono)
  then have rendered: "sorted_wrt (\<lambda>a b. b \<le> a)
      (map (\<lambda>item. the (Data item ''Perc99'')) (DataItems (ToPerfData keys m)))"
    by (simp add: items sorted_wrt_map toDataItem_def comp_def)
  show ?thesis
    using ms st srt strict items rendered by (simp add: perc99_def)
qed

lemma threeMetrics_eval:
  "threeMetrics =
     [''a||GET|namespace'' \<mapsto>
        \<lparr>Resource = ''a'', Subresource = [], Verb = ''GET'', Scope = ''namespace'',
         Latency = \<lparr>Perc50 = 0, Perc90 = 0, Perc99 = 10000000\<rparr>, Count = 0, SlowCount = 0\<rparr>,
      ''b||GET|namespace'' \<mapsto>
        \<lparr>Resource = ''b'', Subresource = [], Verb = ''GET'', Scope = ''namespace'',
         Latency = \<lparr>Perc50 = 0, Perc90 = 0, Perc99 = 500000000\<rparr>, Count = 0, SlowCount = 0\<rparr>,
      ''c||GET|namespace'' \<mapsto>
        \<lparr>Resource = ''c'', Subresource = [], Verb = ''GET'', Scope = ''namespace'',
         Latency = \<lparr>Perc50 = 0, Perc90 = 0, Perc99 = 50000000\<rparr>, Count = 0, SlowCount = 0\<rparr>]"
  by (simp add: threeMetrics_def set_defs buildKey_def SetQuantile_def zeroLatency_def)

lemma threeMetrics_sorted:
  "map (Perc99 \<circ> Latency) (sorted_metrics threeKeys threeMetrics)
     = [500000000, 50000000, 10000000]"
  by (simp add: threeMetrics_eval threeKeys_def sorted_metrics_def sort_Slice_def
      List.map_filter_simps)

theorem report_descending_witness:
  "distinct threeKeys \<and> set threeKeys = dom threeMetrics \<and>
   map (Perc99 \<circ> Latency) (List.map_filter threeMetrics threeKeys)
     = [10000000, 500000000, 50000000] \<and>
   map (Perc99 \<circ> Latency) (sorted_metrics threeKeys threeMetrics)
     = [500000000, 50000000, 10000000] \<and>
   sorted_wrt (\<lambda>a b. sint (Perc99 (Latency b)) \<le> sint (Perc99 (Latency a)))
     (sorted_metrics threeKeys threeMetrics)"
proof -
  have d: "distinct threeKeys"
    by (simp add: threeKeys_def)
  have s: "set threeKeys = dom threeMetrics"
    by (auto simp: threeKeys_def threeMetrics_eval)
  have u: "map (Perc99 \<circ> Latency) (List.map_filter threeMetrics threeKeys)
     = [10000000, 500000000, 50000000]"
    by (simp add: threeMetrics_eval threeKeys_def List.map_filter_simps)
  show ?thesis
    using report_descending [OF d s] d s u threeMetrics_sorted by simp
qed

text \<open>
  The claim as stated promises a strictly descending order. Two records known from
  count samples only both have a 99th percentile of zero, and the report lists both.
\<close>

theorem report_strictly_descending_counterexample:
  "distinct tieKeys \<and> set tieKeys = dom tieMetrics \<and>
   map (Perc99 \<circ> Latency) (sorted_metrics tieKeys tieMetrics) = [0, 0] \<and>
   \<not> sorted_wrt (\<lambda>a b. Perc99 (Latency b) <s Perc99 (Latency a))
       (sorted_metrics tieKeys tieMetrics)"
proof -
  have m: "tieMetrics =
     [''a||GET|namespace'' \<mapsto>
        \<lparr>Resource = ''a'', Subresource = [], Verb = ''GET'', Scope = ''namespace'',
         Latency = zeroLatency, Count = 7, SlowCount = 0\<rparr>,
      ''b||GET|namespace'' \<mapsto>
        \<lparr>Resource = ''b'', Subresource = [], Verb = ''GET'', Scope = ''namespace'',
         Latency = zeroLatency, Count = 9, SlowCount = 0\<rparr>]"
    by (simp add: tieMetrics_def set_defs buildKey_def)
  have s: "set tieKeys = dom tieMetrics"
    by (auto simp: tieKeys_def m)
  show ?thesis
    by (simp add: s) (simp add: m tieKeys_def sorted_metrics_def sort_Slice_def
        List.map_filter_simps zeroLatency_def)
qed

subsection \<open>The queries of one pass\<close>

lemma simpleLatencyLoop_issued:
  assumes "\<forall>q. \<not> isl (exec q)"
  shows "\<exists>samples. simpleLatencyLoop exec pd qs =
     (map (\<lambda>q. simpleLatencyQuery q filters pd) qs, Inr samples)"
proof (induction qs)
  case Nil
  then show ?case by simp
next
  case (Cons q qs)
  from assms obtain samples where "exec (simpleLatencyQuery q filters pd) = Inr samples"
    by (metis sum.collapse(2))
  moreover from Cons obtain others where
    "simpleLatencyLoop exec pd qs = (map (\<lambda>q. simpleLatencyQuery q filters pd) qs, Inr others)"
    by blast
  ultimately show ?case by (simp add: Let_def)
qed

lemma countSlowQueryLoop_issued:
  assumes "\<forall>q. \<not> isl (exec q)"
  shows "\<exists>samples. countSlowQueryLoop exec pd fs =
     (map (\<lambda>f. countSlowQuery f pd) fs, Inr samples)"
proof (induction fs)
  case Nil
  then show ?case by simp
next
  case (Cons f fs)
  from assms obtain samples where "exec (countSlowQuery f pd) = Inr samples"
    by (metis sum.collapse(2))
  moreover from Cons obtain others where
    "countSlowQueryLoop exec pd fs = (map (\<lambda>f. countSlowQuery f pd) fs, Inr others)"
    by blast
  ultimately show ?case by (simp add: Let_def)
qed

lemma gatherAPICalls_issued:
  assumes ok: "\<forall>q. \<not> isl (exec q)"
    and b: "GetBoolOrDefault params ''useSimpleLatencyQuery'' False = Inr useSimple"
    and n: "GetIntOrDefault params ''allowedSlowCalls'' 0 = Inr allowedSlowCalls"
  shows "fst (gatherAPICalls pf tpt exec d params) =
     (if useSimple then map (\<lambda>q. simpleLatencyQuery q filters (tpt d)) quantiles
      else [latencyQuery filters (tpt (latencyMeasurementDuration d))])
     @ [countQuery filters (tpt d)]
     @ (if allowedSlowCalls \<noteq> 0
        then map (\<lambda>f. countSlowQuery f (tpt d))
               [filterGetAndMutating, filterNamespaceList, filterClusterList]
        else [])"
proof -
  obtain simpleSamples where simple: "simpleLatencyLoop exec (tpt d) quantiles =
      (map (\<lambda>q. simpleLatencyQuery q filters (tpt d)) quantiles, Inr simpleSamples)"
    using simpleLatencyLoop_issued [OF ok] by blast
  obtain windowSamples where window:
    "exec (latencyQuery filters (tpt (latencyMeasurementDuration d))) = Inr windowSamples"
    using ok by (metis sum.collapse(2))
  obtain countSamples where cnt: "exec (countQuery filters (tpt d)) = Inr countSamples"
    using ok by (metis sum.collapse(2))
  obtain slowSamples where slow: "countSlowQueryLoop exec (tpt d)
        [filterGetAndMutating, filterNamespaceList, filterClusterList] =
      (map (\<lambda>f. countSlowQuery f (tpt d))
         [filterGetAndMutating, filterNamespaceList, filterClusterList], Inr slowSamples)"
    using countSlowQueryLoop_issued [OF ok] by blast
  show ?thesis
  proof (cases useSimple)
    case True
    show ?thesis
    proof (cases "allowedSlowCalls = 0")
      case True
      with \<open>useSimple\<close> show ?thesis
        by (simp only: gatherAPICalls_def Let_def b n simple cnt if_True if_False
            sum.case prod.case fst_conv append.simps not_True_eq_False simp_thms)
    next
      case False
      with \<open>useSimple\<close> show ?thesis
        by (simp only: gatherAPICalls_def Let_def b n simple cnt slow if_True if_False
            sum.case prod.case fst_conv append.simps not_False_eq_True simp_thms)
    qed
  next
    case False
    show ?thesis
    proof (cases "allowedSlowCalls = 0")
      case True
      with \<open>\<not> useSimple\<close> show ?thesis
        by (simp only: gatherAPICalls_def Let_def b n window cnt if_True if_False
            sum.case prod.case fst_conv append.simps not_True_eq_False simp_thms)
    next
      case False
      with \<open>\<not> useSimple\<close> show ?thesis
        by (simp only: gatherAPICalls_def Let_def b n window cnt slow if_True if_False
            sum.case prod.case fst_conv append.simps not_False_eq_True simp_thms)
    qed
  qed
qed

text \<open>With the simple query off, the first query of a pass is the windowed one.\<close>

lemma gatherAPICalls_first_query:
  assumes "GetBoolOrDefault params ''useSimpleLatencyQuery'' False = Inr False"
  shows "\<exists>issued. fst (gatherAPICalls pf tpt exec d params) =
     latencyQuery filters (tpt (latencyMeasurementDuration d)) # issued"
  unfolding gatherAPICalls_def Let_def assms
  by (simp split: sum.splits prod.splits)

lemma sint_sub_window:
  assumes "- 9223372036854775808 + 300000000000 \<le> sint (d :: duration)"
  shows "sint (d - 300000000000) = sint d - 300000000000"
proof -
  have up: "sint d < 9223372036854775808"
    using sint_lt [of d] by simp
  have "sint (d - 300000000000) = signed_take_bit 63 (sint d - 300000000000)"
    by (simp add: sint_word_ariths)
  also have "\<dots> = sint d - 300000000000"
    using assms up by (intro signed_take_bit_int_eq_self) simp_all
  finally show ?thesis .
qed

text \<open>
  C6 (as amended). With \<^verbatim>\<open>useSimpleLatencyQuery\<close> off, the first query of a pass is
  the latency query over the window \<open>latencyMeasurementDuration d\<close>. For every duration
  \<open>d\<close> of at least the least \<^verbatim>\<open>int64\<close> plus five minutes, that window is \<open>d\<close> less
  five minutes, and one minute when that is less than one minute (nanoseconds below).
\<close>

theorem latency_window_floor:
  assumes "- 9223372036854775808 + 300000000000 \<le> sint d"
  shows "sint (latencyMeasurementDuration d) = max (sint d - 300000000000) 60000000000 \<and>
    (sint d - 300000000000 < 60000000000 \<longrightarrow> latencyMeasurementDuration d = Minute) \<and>
    (GetBoolOrDefault params ''useSimpleLatencyQuery'' False = Inr False \<longrightarrow>
       hd (fst (gatherAPICalls pf tpt exec d params))
         = latencyQuery filters (tpt (latencyMeasurementDuration d)))"
proof -
  note sub = sint_sub_window [OF assms]
  have w: "sint (latencyMeasurementDuration d) = max (sint d - 300000000000) 60000000000"
    using sub by (simp add: latencyMeasurementDuration_def Let_def duration_defs word_sless_alt)
  have f: "latencyMeasurementDuration d = Minute" if "sint d - 300000000000 < 60000000000"
    using sub that
    by (simp add: latencyMeasurementDuration_def Let_def duration_defs word_sless_alt)
  have q: "hd (fst (gatherAPICalls pf tpt exec d params))
      = latencyQuery filters (tpt (latencyMeasurementDuration d))"
    if "GetBoolOrDefault params ''useSimpleLatencyQuery'' False = Inr False"
    using gatherAPICalls_first_query [OF that, of pf tpt exec d] by auto
  show ?thesis using w f q by blast
qed

theorem latency_window_floor_witness:
  "- 9223372036854775808 + 300000000000 \<le> sint (600000000000 :: duration) \<and>
   sint (latencyMeasurementDuration 600000000000) = 300000000000 \<and>
   - 9223372036854775808 + 300000000000 \<le> sint (120000000000 :: duration) \<and>
   latencyMeasurementDuration 120000000000 = Minute \<and>
   - 9223372036854775808 + 300000000000 \<le> sint (- 1000000000 :: duration) \<and>
   latencyMeasurementDuration (- 1000000000) = Minute \<and>
   GetBoolOrDefault Map.empty ''useSimpleLatencyQuery'' False = Inr False \<and>
   hd (fst (gatherAPICalls parseFloatExample secondsText emptyExecutor 120000000000 Map.empty))
     = latencyQuery filters (secondsText Minute)"
  using latency_window_floor [of 600000000000]
    latency_window_floor [of 120000000000 Map.empty parseFloatExample secondsText emptyExecutor]
    latency_window_floor [of "- 1000000000"]
  by (simp add: GetBoolOrDefault_def)

text \<open>
  The claim as stated covers every duration. \<^verbatim>\<open>time.Time.Sub\<close> returns the least
  duration when the start lies far enough in the future; from there the subtraction of
  five minutes wraps around to a window of some 292 years, not of one minute.
\<close>

theorem latency_window_floor_counterexample:
  "sint (- 9223372036854775808 :: duration) - 300000000000 < 60000000000 \<and>
   latencyMeasurementDuration (- 9223372036854775808) \<noteq> Minute \<and>
   sint (latencyMeasurementDuration (- 9223372036854775808)) = 9223371736854775808"
  by (simp add: latencyMeasurementDuration_def Let_def duration_defs)

text \<open>
  C10. Let the executor answer every query. The slow-count queries are issued exactly
  when \<^verbatim>\<open>allowedSlowCalls\<close> is not zero, negative values included. \<^verbatim>\<open>Validate\<close>
  exempts only under a positive tolerance: under a negative one, a metric whose 99th
  percentile exceeds its threshold fails whatever its slow count.
\<close>

theorem negative_tolerance_asymmetry:
  assumes "\<forall>q. \<not> isl (exec q)"
    and "GetBoolOrDefault params ''useSimpleLatencyQuery'' False = Inr useSimple"
    and "GetIntOrDefault params ''allowedSlowCalls'' 0 = Inr allowedSlowCalls"
  shows "fst (gatherAPICalls pf tpt exec d params) =
      (if useSimple then map (\<lambda>q. simpleLatencyQuery q filters (tpt d)) quantiles
       else [latencyQuery filters (tpt (latencyMeasurementDuration d))])
      @ [countQuery filters (tpt d)]
      @ (if allowedSlowCalls \<noteq> 0
         then [countSlowQuery filterGetAndMutating (tpt d),
               countSlowQuery filterNamespaceList (tpt d),
               countSlowQuery filterClusterList (tpt d)]
         else []) \<and>
    (allowedSlowCalls < 0 \<and> sint (getSLOThreshold ap) < sint (Perc99 (Latency ap)) \<longrightarrow>
       Validate ap allowedSlowCalls \<noteq> None)"
  using gatherAPICalls_issued [OF assms, of pf tpt d]
  by (simp add: Validate_def VerifyThreshold_def Let_def word_sless_alt)

theorem negative_tolerance_asymmetry_witness:
  "\<not> isl (emptyExecutor (countQuery filters (secondsText 600000000000))) \<and>
   GetBoolOrDefault negativeTolerance ''useSimpleLatencyQuery'' False = Inr False \<and>
   GetIntOrDefault negativeTolerance ''allowedSlowCalls'' 0 = Inr (- 1) \<and>
   fst (gatherAPICalls parseFloatExample secondsText emptyExecutor 600000000000
          negativeTolerance) =
     [latencyQuery filters (secondsText (latencyMeasurementDuration 600000000000)),
      countQuery filters (secondsText 600000000000),
      countSlowQuery filterGetAndMutating (secondsText 600000000000),
      countSlowQuery filterNamespaceList (secondsText 600000000000),
      countSlowQuery filterClusterList (secondsText 600000000000)] \<and>
   sint (getSLOThreshold (slowListCall 0)) < sint (Perc99 (Latency (slowListCall 0))) \<and>
   Validate (slowListCall 0) (- 1) \<noteq> None"
proof -
  have ok: "\<forall>q. \<not> isl (emptyExecutor q)"
    by (simp add: emptyExecutor_def)
  have b: "GetBoolOrDefault negativeTolerance ''useSimpleLatencyQuery'' False = Inr False"
    by (simp add: GetBoolOrDefault_def negativeTolerance_def)
  have n: "GetIntOrDefault negativeTolerance ''allowedSlowCalls'' 0 = Inr (- 1)"
    by (simp add: GetIntOrDefault_def negativeTolerance_def)
  have t: "sint (getSLOThreshold (slowListCall 0)) < sint (Perc99 (Latency (slowListCall 0)))"
    by (simp add: slowListCall_def getSLOThreshold_def duration_defs)
  show ?thesis
    using negative_tolerance_asymmetry [OF ok b n, of parseFloatExample secondsText
        600000000000 "slowListCall 0"] ok b n t
    by simp
qed

end
